theory Spec2Isabelle
  imports Main "HOL-Library.Sublist"
begin

section \<open>Action recording and test generation of the Playwright MCP server\<close>

text \<open>
  A shallow embedding of the recording state and the test generators of
  \<^verbatim>\<open>src/index.ts\<close>. A JavaScript string is modelled as a \<^typ>\<open>string\<close>, one
  \<^typ>\<open>char\<close> per UTF-16 code unit, which covers the code units below 256; the regular
  expression of the source has no \<^verbatim>\<open>u\<close> flag and therefore works on code units
  one by one, as the model does.
\<close>

subsection \<open>Data model\<close>

text \<open>
  \<^verbatim>\<open>Omit<RecordedAction, "timestamp">\<close>: what a tool handler passes to
  \<^verbatim>\<open>recordAction\<close>. An optional field that is absent is \<^const>\<open>None\<close>.
\<close>

record ActionInput =
  type :: string
  selector :: "string option"
  "value" :: "string option"
  url :: "string option"
  script :: "string option"
  key :: "string option"
  attribute :: "string option"
  description :: "string option"

text \<open>\<^verbatim>\<open>interface RecordedAction\<close>: the payload and the time of capture.\<close>

record RecordedAction = ActionInput +
  timestamp :: int

text \<open>The enumerations of \<^verbatim>\<open>GenerateTestSchema\<close>.\<close>

datatype framework = Playwright | Puppeteer | Selenium

datatype language = Typescript | Javascript | Python

text \<open>
  The module-level variables \<^verbatim>\<open>recordedActions\<close>, \<^verbatim>\<open>isRecording\<close> and
  \<^verbatim>\<open>recordingName\<close>, together with the trace of the calls made to the
  \<^verbatim>\<open>fs\<close> module that change the file system.
\<close>

datatype fs_call = MkdirSync string | WriteFileSync string string

record session =
  recordedActions :: "RecordedAction list"
  isRecording :: bool
  recordingName :: string
  fsCalls :: "fs_call list"

text \<open>
  What a handler reads from outside the module: the clock, the working directory,
  \<^verbatim>\<open>path.join\<close>, \<^verbatim>\<open>fs.existsSync\<close>, and for each call that changes the file
  system the message of the error it throws, if it throws.
\<close>

record env =
  now :: int
  cwd :: string
  pathJoin :: "string \<Rightarrow> string \<Rightarrow> string"
  existsSync :: "string \<Rightarrow> bool"
  fsThrows :: "fs_call \<Rightarrow> string option"

text \<open>
  The object a tool handler returns: the texts of its \<^verbatim>\<open>content\<close> items and the
  \<^verbatim>\<open>isError\<close> field (\<^const>\<open>None\<close> when the object has no such field).
\<close>

record response =
  content :: "string list"
  isError :: "bool option"

text \<open>The initial values of the module-level variables (lines 28 to 30).\<close>

definition initialSession :: session where
  "initialSession =
     \<lparr>recordedActions = [], isRecording = False, recordingName = [], fsCalls = []\<rparr>"

subsection \<open>JavaScript string operations\<close>

text \<open>
  \<^verbatim>\<open>${e}\<close> in a template literal, for an optional string field: an absent field is
  the value \<^verbatim>\<open>undefined\<close>, which converts to the text \<^verbatim>\<open>undefined\<close>.
\<close>

definition interp :: "string option \<Rightarrow> string" where
  "interp v = (case v of None \<Rightarrow> ''undefined'' | Some s \<Rightarrow> s)"

text \<open>
  \<^verbatim>\<open>'${e}'\<close> in a template literal: the text between two apostrophes (U+0027),
  with nothing escaped.
\<close>

definition squote :: "string \<Rightarrow> string" where
  "squote s = CHR 0x27 # s @ [CHR 0x27]"

text \<open>The character class \<^verbatim>\<open>[a-zA-Z0-9]\<close>.\<close>

definition isAlnum :: "char \<Rightarrow> bool" where
  "isAlnum c =
     (let n = (of_char c :: nat)
      in (97 \<le> n \<and> n \<le> 122) \<or> (65 \<le> n \<and> n \<le> 90) \<or> (48 \<le> n \<and> n \<le> 57))"

text \<open>\<^verbatim>\<open>s.replace(/[^a-zA-Z0-9]/g, "_")\<close>.\<close>

definition replaceNonAlnum :: "string \<Rightarrow> string" where
  "replaceNonAlnum s = map (\<lambda>c. if isAlnum c then c else CHR ''_'') s"

text \<open>\<^verbatim>\<open>s || d\<close> for strings: the empty string is falsy.\<close>

definition orElse :: "string \<Rightarrow> string \<Rightarrow> string" where
  "orElse s d = (if s = [] then d else s)"

text \<open>
  \<^verbatim>\<open>${n}\<close> for an array length: the decimal digits of a natural number.
\<close>

definition digitChar :: "nat \<Rightarrow> char" where
  "digitChar d = ''0123456789'' ! d"

function stringOfNat :: "nat \<Rightarrow> string" where
  "stringOfNat n =
     (if n < 10 then [digitChar n] else stringOfNat (n div 10) @ [digitChar (n mod 10)])"
  by pat_completeness auto
termination
  by (relation "measure (\<lambda>n. n)") auto

declare stringOfNat.simps [simp del]

text \<open>The string value of an enumeration member.\<close>

fun frameworkName :: "framework \<Rightarrow> string" where
  "frameworkName Playwright = ''playwright''"
| "frameworkName Puppeteer = ''puppeteer''"
| "frameworkName Selenium = ''selenium''"

fun languageName :: "language \<Rightarrow> string" where
  "languageName Typescript = ''typescript''"
| "languageName Javascript = ''javascript''"
| "languageName Python = ''python''"

subsection \<open>The recorder and the session controls\<close>

text \<open>
  \<^verbatim>\<open>recordAction\<close> (lines 33 to 40). The spread copies every field of the
  argument; the time stamp is the clock's value at the call.
\<close>

definition stamp :: "int \<Rightarrow> ActionInput \<Rightarrow> RecordedAction" where
  "stamp t action = ActionInput.extend action \<lparr>timestamp = t\<rparr>"

definition recordAction :: "env \<Rightarrow> ActionInput \<Rightarrow> session \<Rightarrow> session" where
  "recordAction e action s =
     (if isRecording s
      then s\<lparr>recordedActions := recordedActions s @ [stamp (now e) action]\<rparr>
      else s)"

text \<open>The handler of \<^verbatim>\<open>playwright_record_start\<close> (lines 915 to 928).\<close>

definition playwright_record_start :: "string \<Rightarrow> session \<Rightarrow> response \<times> session" where
  "playwright_record_start name s =
     (\<lparr>content = [''Recording started: '' @ name
                    @ ''. All subsequent actions will be recorded.''],
       isError = None\<rparr>,
      s\<lparr>isRecording := True, recordingName := name, recordedActions := []\<rparr>)"

text \<open>The handler of \<^verbatim>\<open>playwright_record_stop\<close> (lines 930 to 940).\<close>

definition playwright_record_stop :: "session \<Rightarrow> response \<times> session" where
  "playwright_record_stop s =
     (let s' = s\<lparr>isRecording := False\<rparr>
      in (\<lparr>content = [''Recording stopped. '' @ stringOfNat (length (recordedActions s'))
                 @ '' actions recorded. Use playwright_generate_test to create a test script.''],
            isError = None\<rparr>,
          s'))"

subsection \<open>The test generators\<close>

text \<open>
  Each generator runs \<^verbatim>\<open>for (const action of actions) switch (action.type)\<close>.
  The body of a loop round is modelled by a function that gives the text a round
  appends to \<^verbatim>\<open>testCode\<close>, or \<^const>\<open>None\<close> when no \<^verbatim>\<open>case\<close> label equals the
  type, in which case the round leaves \<^verbatim>\<open>testCode\<close> as it is.
\<close>

definition appendStatements ::
  "(RecordedAction \<Rightarrow> string option) \<Rightarrow> string \<Rightarrow> RecordedAction list \<Rightarrow> string" where
  "appendStatements switch testCode actions =
     foldl (\<lambda>code action. case switch action of None \<Rightarrow> code | Some stmt \<Rightarrow> code @ stmt)
       testCode actions"

text \<open>The \<^verbatim>\<open>switch\<close> of \<^verbatim>\<open>generatePlaywrightTest\<close> (lines 210 to 244).\<close>

definition playwrightSwitch :: "RecordedAction \<Rightarrow> string option" where
  "playwrightSwitch action =
     (if type action = ''navigate'' then
        Some (''  await page.goto('' @ squote (interp (url action)) @ '');\<newline>'')
      else if type action = ''click'' then
        Some (''  await page.click('' @ squote (interp (selector action)) @ '');\<newline>'')
      else if type action = ''fill'' then
        Some (''  await page.fill('' @ squote (interp (selector action)) @ '', ''
              @ squote (interp (value action)) @ '');\<newline>'')
      else if type action = ''type'' then
        Some (''  await page.type('' @ squote (interp (selector action)) @ '', ''
              @ squote (interp (value action)) @ '');\<newline>'')
      else if type action = ''press'' then
        Some (''  await page.keyboard.press('' @ squote (interp (key action)) @ '');\<newline>'')
      else if type action = ''select'' then
        Some (''  await page.selectOption('' @ squote (interp (selector action)) @ '', ''
              @ squote (interp (value action)) @ '');\<newline>'')
      else if type action = ''hover'' then
        Some (''  await page.hover('' @ squote (interp (selector action)) @ '');\<newline>'')
      else if type action = ''check'' then
        Some (''  await page.check('' @ squote (interp (selector action)) @ '');\<newline>'')
      else if type action = ''uncheck'' then
        Some (''  await page.uncheck('' @ squote (interp (selector action)) @ '');\<newline>'')
      else if type action = ''waitForSelector'' then
        Some (''  await page.waitForSelector('' @ squote (interp (selector action))
              @ '');\<newline>'')
      else if type action = ''screenshot'' then
        Some (''  await page.screenshot({ path: '' @ squote (interp (value action))
              @ '' });\<newline>'')
      else None)"

text \<open>
  \<^verbatim>\<open>generatePlaywrightTest\<close> (lines 200 to 249). It reads the module-level
  \<^verbatim>\<open>recordingName\<close>, here its first argument.
\<close>

definition generatePlaywrightTest :: "string \<Rightarrow> RecordedAction list \<Rightarrow> language \<Rightarrow> string" where
  "generatePlaywrightTest name actions lang =
     (let isTS = (lang = Typescript);
          imports =
            (if isTS
             then ''import { test, expect } from '' @ squote ''@playwright/test''
                  @ '';\<newline>\<newline>''
             else ''const { test, expect } = require('' @ squote ''@playwright/test''
                  @ '');\<newline>\<newline>'');
          testCode = imports;
          testCode = testCode @ ''test('' @ squote (orElse name ''recorded test'')
                     @ '', async ({ page }) => {\<newline>'';
          testCode = appendStatements playwrightSwitch testCode actions;
          testCode = testCode @ ''});\<newline>''
      in testCode)"

text \<open>The \<^verbatim>\<open>switch\<close> of \<^verbatim>\<open>generatePuppeteerTest\<close> (lines 263 to 289).\<close>

definition puppeteerSwitch :: "RecordedAction \<Rightarrow> string option" where
  "puppeteerSwitch action =
     (if type action = ''navigate'' then
        Some (''  await page.goto('' @ squote (interp (url action)) @ '');\<newline>'')
      else if type action = ''click'' then
        Some (''  await page.click('' @ squote (interp (selector action)) @ '');\<newline>'')
      else if type action = ''fill'' \<or> type action = ''type'' then
        Some (''  await page.type('' @ squote (interp (selector action)) @ '', ''
              @ squote (interp (value action)) @ '');\<newline>'')
      else if type action = ''press'' then
        Some (''  await page.keyboard.press('' @ squote (interp (key action)) @ '');\<newline>'')
      else if type action = ''select'' then
        Some (''  await page.select('' @ squote (interp (selector action)) @ '', ''
              @ squote (interp (value action)) @ '');\<newline>'')
      else if type action = ''hover'' then
        Some (''  await page.hover('' @ squote (interp (selector action)) @ '');\<newline>'')
      else if type action = ''waitForSelector'' then
        Some (''  await page.waitForSelector('' @ squote (interp (selector action))
              @ '');\<newline>'')
      else if type action = ''screenshot'' then
        Some (''  await page.screenshot({ path: '' @ squote (interp (value action))
              @ '' });\<newline>'')
      else None)"

text \<open>\<^verbatim>\<open>generatePuppeteerTest\<close> (lines 251 to 295).\<close>

definition generatePuppeteerTest :: "RecordedAction list \<Rightarrow> language \<Rightarrow> string" where
  "generatePuppeteerTest actions lang =
     (let isTS = (lang = Typescript);
          imports =
            (if isTS
             then ''import puppeteer from '' @ squote ''puppeteer'' @ '';\<newline>\<newline>''
             else ''const puppeteer = require('' @ squote ''puppeteer''
                  @ '');\<newline>\<newline>'');
          testCode = imports;
          testCode = testCode @ ''(async () => {\<newline>'';
          testCode = testCode @ ''  const browser = await puppeteer.launch();\<newline>'';
          testCode = testCode @ ''  const page = await browser.newPage();\<newline>\<newline>'';
          testCode = appendStatements puppeteerSwitch testCode actions;
          testCode = testCode @ ''\<newline>  await browser.close();\<newline>'';
          testCode = testCode @ ''})();\<newline>''
      in testCode)"

text \<open>
  The two \<^verbatim>\<open>switch\<close> statements of \<^verbatim>\<open>generatePythonTest\<close>: lines 306 to 334
  (Playwright) and lines 349 to 366 (Selenium).
\<close>

definition pythonPlaywrightSwitch :: "RecordedAction \<Rightarrow> string option" where
  "pythonPlaywrightSwitch action =
     (if type action = ''navigate'' then
        Some (''        page.goto('' @ squote (interp (url action)) @ '')\<newline>'')
      else if type action = ''click'' then
        Some (''        page.click('' @ squote (interp (selector action)) @ '')\<newline>'')
      else if type action = ''fill'' then
        Some (''        page.fill('' @ squote (interp (selector action)) @ '', ''
              @ squote (interp (value action)) @ '')\<newline>'')
      else if type action = ''type'' then
        Some (''        page.type('' @ squote (interp (selector action)) @ '', ''
              @ squote (interp (value action)) @ '')\<newline>'')
      else if type action = ''press'' then
        Some (''        page.keyboard.press('' @ squote (interp (key action)) @ '')\<newline>'')
      else if type action = ''select'' then
        Some (''        page.select_option('' @ squote (interp (selector action)) @ '', ''
              @ squote (interp (value action)) @ '')\<newline>'')
      else if type action = ''hover'' then
        Some (''        page.hover('' @ squote (interp (selector action)) @ '')\<newline>'')
      else if type action = ''waitForSelector'' then
        Some (''        page.wait_for_selector('' @ squote (interp (selector action))
              @ '')\<newline>'')
      else if type action = ''screenshot'' then
        Some (''        page.screenshot(path='' @ squote (interp (value action))
              @ '')\<newline>'')
      else None)"

definition pythonSeleniumSwitch :: "RecordedAction \<Rightarrow> string option" where
  "pythonSeleniumSwitch action =
     (if type action = ''navigate'' then
        Some (''    driver.get('' @ squote (interp (url action)) @ '')\<newline>'')
      else if type action = ''click'' then
        Some (''    driver.find_element(By.CSS_SELECTOR, ''
              @ squote (interp (selector action)) @ '').click()\<newline>'')
      else if type action = ''fill'' \<or> type action = ''type'' then
        Some (''    driver.find_element(By.CSS_SELECTOR, ''
              @ squote (interp (selector action)) @ '').send_keys(''
              @ squote (interp (value action)) @ '')\<newline>'')
      else if type action = ''waitForSelector'' then
        Some (''    WebDriverWait(driver, 10).until(EC.presence_of_element_located((By.CSS_SELECTOR, ''
              @ squote (interp (selector action)) @ '')))\<newline>'')
      else if type action = ''screenshot'' then
        Some (''    driver.save_screenshot('' @ squote (interp (value action)) @ '')\<newline>'')
      else None)"

text \<open>
  \<^verbatim>\<open>generatePythonTest\<close> (lines 297 to 372). The test at line 298 compares with
  \<^verbatim>\<open>"playwright"\<close> only, so every other framework takes the second branch.
\<close>

definition generatePythonTest :: "string \<Rightarrow> RecordedAction list \<Rightarrow> framework \<Rightarrow> string" where
  "generatePythonTest name actions fw =
     (if fw = Playwright then
        (let testCode = ''from playwright.sync_api import sync_playwright\<newline>\<newline>'';
             testCode = testCode @ ''def test_'' @ orElse (replaceNonAlnum name) ''recorded''
                        @ ''():\<newline>'';
             testCode = testCode @ ''    with sync_playwright() as p:\<newline>'';
             testCode = testCode @ ''        browser = p.chromium.launch()\<newline>'';
             testCode = testCode @ ''        page = browser.new_page()\<newline>\<newline>'';
             testCode = appendStatements pythonPlaywrightSwitch testCode actions;
             testCode = testCode @ ''\<newline>        browser.close()\<newline>''
         in testCode)
      else
        (let testCode = ''from selenium import webdriver\<newline>'';
             testCode = testCode @ ''from selenium.webdriver.common.by import By\<newline>'';
             testCode = testCode
                        @ ''from selenium.webdriver.support.ui import WebDriverWait\<newline>'';
             testCode = testCode
                        @ ''from selenium.webdriver.support import expected_conditions as EC\<newline>\<newline>'';
             testCode = testCode @ ''def test_'' @ orElse (replaceNonAlnum name) ''recorded''
                        @ ''():\<newline>'';
             testCode = testCode @ ''    driver = webdriver.Chrome()\<newline>\<newline>'';
             testCode = appendStatements pythonSeleniumSwitch testCode actions;
             testCode = testCode @ ''\<newline>    driver.quit()\<newline>''
         in testCode))"

subsection \<open>The handler of the generate tool\<close>

text \<open>
  Lines 956 to 964: the choice of the generator. When the language is not Python and
  the framework is neither Playwright nor Puppeteer, no branch is taken and
  \<^verbatim>\<open>testCode\<close> keeps its initial value, the empty string.
\<close>

definition selectTestCode :: "string \<Rightarrow> RecordedAction list \<Rightarrow> framework \<Rightarrow> language \<Rightarrow> string" where
  "selectTestCode name actions fw lang =
     (if lang = Python then generatePythonTest name actions fw
      else if fw = Playwright then generatePlaywrightTest name actions lang
      else if fw = Puppeteer then generatePuppeteerTest actions lang
      else [])"

text \<open>
  The handler of \<^verbatim>\<open>playwright_generate_test\<close> (lines 942 to 983) inside the
  \<^verbatim>\<open>try\<close> of lines 691 to 1003: an error thrown by a call to \<^verbatim>\<open>fs\<close> ends
  the handler with the response of the \<^verbatim>\<open>catch\<close> block. The arguments are the
  values \<^verbatim>\<open>GenerateTestSchema.parse\<close> has accepted.
\<close>

definition errorResponse :: "string \<Rightarrow> response" where
  "errorResponse errorMessage = \<lparr>content = [''Error: '' @ errorMessage], isError = Some True\<rparr>"

definition playwright_generate_test ::
  "env \<Rightarrow> framework \<Rightarrow> language \<Rightarrow> string \<Rightarrow> session \<Rightarrow> response \<times> session" where
  "playwright_generate_test e fw lang fileName s =
     (if length (recordedActions s) = 0 then
        (\<lparr>content = [''No actions recorded. Start recording with playwright_record_start first.''],
          isError = None\<rparr>, s)
      else
        (let testCode = selectTestCode (recordingName s) (recordedActions s) fw lang;
             testsDir = pathJoin e (cwd e) ''generated-tests'';
             s1 = (if \<not> existsSync e testsDir
                   then s\<lparr>fsCalls := fsCalls s @ [MkdirSync testsDir]\<rparr> else s);
             mkdirError = (if \<not> existsSync e testsDir then fsThrows e (MkdirSync testsDir)
                           else None)
         in case mkdirError of
              Some msg \<Rightarrow> (errorResponse msg, s1)
            | None \<Rightarrow>
               (let filePath = pathJoin e testsDir fileName;
                    s2 = s1\<lparr>fsCalls := fsCalls s1 @ [WriteFileSync filePath testCode]\<rparr>
                in case fsThrows e (WriteFileSync filePath testCode) of
                     Some msg \<Rightarrow> (errorResponse msg, s2)
                   | None \<Rightarrow>
                      (\<lparr>content = [''Test generated successfully!\<newline>File: '' @ filePath
                          @ ''\<newline>Framework: '' @ frameworkName fw
                          @ ''\<newline>Language: '' @ languageName lang
                          @ ''\<newline>Actions: '' @ stringOfNat (length (recordedActions s2))
                          @ ''\<newline>\<newline>'' @ testCode],
                        isError = None\<rparr>, s2))))"

subsection \<open>What the tool handlers record\<close>

text \<open>
  The arguments of the calls of \<^verbatim>\<open>recordAction\<close> in the tool handlers (lines 697
  to 875): an object literal with the type, the fields of that kind of action and a
  description. Every handler calls \<^verbatim>\<open>recordAction\<close> after the browser operation
  has returned.
\<close>

definition actionOf :: "string \<Rightarrow> string \<Rightarrow> ActionInput" where
  "actionOf ty descr =
     \<lparr>type = ty, selector = None, value = None, url = None, script = None, key = None,
       attribute = None, description = Some descr\<rparr>"

definition navigateAction :: "string \<Rightarrow> ActionInput" where
  "navigateAction u = (actionOf ''navigate'' (''Navigate to '' @ u))\<lparr>url := Some u\<rparr>"

definition screenshotAction :: "string \<Rightarrow> ActionInput" where
  "screenshotAction screenshotName =
     (actionOf ''screenshot'' ''Take screenshot'')\<lparr>value := Some screenshotName\<rparr>"

definition clickAction :: "string \<Rightarrow> ActionInput" where
  "clickAction sel = (actionOf ''click'' (''Click '' @ sel))\<lparr>selector := Some sel\<rparr>"


definition typeAction :: "string \<Rightarrow> string \<Rightarrow> ActionInput" where
  "typeAction sel text =
     (actionOf ''type'' (''Type into '' @ sel))\<lparr>selector := Some sel, value := Some text\<rparr>"

definition hoverAction :: "string \<Rightarrow> ActionInput" where
  "hoverAction sel = (actionOf ''hover'' (''Hover '' @ sel))\<lparr>selector := Some sel\<rparr>"

definition selectAction :: "string \<Rightarrow> string \<Rightarrow> ActionInput" where
  "selectAction sel v =
     (actionOf ''select'' (''Select option in '' @ sel))\<lparr>selector := Some sel, value := Some v\<rparr>"

definition waitForSelectorAction :: "string \<Rightarrow> ActionInput" where
  "waitForSelectorAction sel =
     (actionOf ''waitForSelector'' (''Wait for '' @ sel))\<lparr>selector := Some sel\<rparr>"

definition pressAction :: "string \<Rightarrow> ActionInput" where
  "pressAction k = (actionOf ''press'' (''Press '' @ k))\<lparr>key := Some k\<rparr>"

definition checkAction :: "string \<Rightarrow> ActionInput" where
  "checkAction sel = (actionOf ''check'' (''Check '' @ sel))\<lparr>selector := Some sel\<rparr>"

definition uncheckAction :: "string \<Rightarrow> ActionInput" where
  "uncheckAction sel = (actionOf ''uncheck'' (''Uncheck '' @ sel))\<lparr>selector := Some sel\<rparr>"


subsection \<open>The statements of a generated text\<close>

text \<open>
  The \<^verbatim>\<open>switch\<close> that runs for a framework and a language, by the choice of lines
  958 to 964 and of line 298, and the statements its loop appends for a log, one list
  element for each round that appends.
\<close>

definition selectedSwitch :: "framework \<Rightarrow> language \<Rightarrow> RecordedAction \<Rightarrow> string option" where
  "selectedSwitch fw lang =
     (if lang = Python then (if fw = Playwright then pythonPlaywrightSwitch else pythonSeleniumSwitch)
      else if fw = Playwright then playwrightSwitch
      else if fw = Puppeteer then puppeteerSwitch
      else (\<lambda>action. None))"

definition statements :: "framework \<Rightarrow> language \<Rightarrow> RecordedAction list \<Rightarrow> string list" where
  "statements fw lang actions = List.map_filter (selectedSwitch fw lang) actions"

text \<open>The \<^verbatim>\<open>case\<close> labels of the four \<^verbatim>\<open>switch\<close> statements, as written.\<close>

definition playwrightKinds :: "string list" where
  "playwrightKinds =
     [''navigate'', ''click'', ''fill'', ''type'', ''press'', ''select'', ''hover'', ''check'',
      ''uncheck'', ''waitForSelector'', ''screenshot'']"

definition puppeteerKinds :: "string list" where
  "puppeteerKinds =
     [''navigate'', ''click'', ''fill'', ''type'', ''press'', ''select'', ''hover'',
      ''waitForSelector'', ''screenshot'']"

definition pythonPlaywrightKinds :: "string list" where
  "pythonPlaywrightKinds =
     [''navigate'', ''click'', ''fill'', ''type'', ''press'', ''select'', ''hover'',
      ''waitForSelector'', ''screenshot'']"

definition pythonSeleniumKinds :: "string list" where
  "pythonSeleniumKinds =
     [''navigate'', ''click'', ''fill'', ''type'', ''waitForSelector'', ''screenshot'']"

definition templateKinds :: "framework \<Rightarrow> language \<Rightarrow> string list" where
  "templateKinds fw lang =
     (if lang = Python then (if fw = Playwright then pythonPlaywrightKinds else pythonSeleniumKinds)
      else if fw = Playwright then playwrightKinds
      else if fw = Puppeteer then puppeteerKinds
      else [])"

definition hasTemplate :: "framework \<Rightarrow> language \<Rightarrow> RecordedAction \<Rightarrow> bool" where
  "hasTemplate fw lang action = (type action \<in> set (templateKinds fw lang))"

subsection \<open>Concrete inputs\<close>

text \<open>
  An environment in which the output directory does not exist yet and no call to the
  file system throws; \<^verbatim>\<open>path.join\<close> on two plain segments puts a slash between
  them.
\<close>

definition testEnv :: env where
  "testEnv =
     \<lparr>now = 1700000000000, cwd = ''/srv/app'', pathJoin = (\<lambda>a b. a @ ''/'' @ b),
       existsSync = (\<lambda>p. False), fsThrows = (\<lambda>c. None)\<rparr>"

text \<open>
  Two logs as \<^const>\<open>recordAction\<close> builds them: a navigation and a click, and the same
  with a checkbox action between the two.
\<close>

definition plainLog :: "RecordedAction list" where
  "plainLog =
     [stamp 1700000000000 (navigateAction ''https://a.test''),
      stamp 1700000000500 (clickAction ''#go'')]"

definition checkboxLog :: "RecordedAction list" where
  "checkboxLog =
     [stamp 1700000000000 (navigateAction ''https://a.test''),
      stamp 1700000000250 (checkAction ''#agree''),
      stamp 1700000000500 (clickAction ''#go'')]"


text \<open>The session after the first of the two logs was recorded under the name s1.\<close>

definition recordedSession :: session where
  "recordedSession =
     \<lparr>recordedActions = plainLog, isRecording = False, recordingName = ''s1'', fsCalls = []\<rparr>"

text \<open>A log with one key press and a log with one checkbox action.\<close>

definition pressLog :: "RecordedAction list" where
  "pressLog = [stamp 1700000000000 (pressAction ''Enter'')]"

definition checkLog :: "RecordedAction list" where
  "checkLog = [stamp 1700000000000 (checkAction ''#agree'')]"

section \<open>Properties\<close>

subsection \<open>The loop and its statements\<close>

lemma appendStatements_concat:
  "appendStatements sw code actions = code @ concat (List.map_filter sw actions)"
proof (induction actions arbitrary: code)
  case Nil
  show ?case by (simp add: appendStatements_def map_filter_simps)
next
  case (Cons a as)
  have step: "appendStatements sw code (a # as) =
      appendStatements sw (case sw a of None \<Rightarrow> code | Some stmt \<Rightarrow> code @ stmt) as"
    by (simp add: appendStatements_def)
  show ?case
    by (cases "sw a") (simp_all add: step Cons.IH map_filter_simps)
qed

lemma playwrightSwitch_kinds:
  "(playwrightSwitch a \<noteq> None) = (type a \<in> set playwrightKinds)"
  by (simp add: playwrightSwitch_def playwrightKinds_def)

lemma puppeteerSwitch_kinds:
  "(puppeteerSwitch a \<noteq> None) = (type a \<in> set puppeteerKinds)"
  by (simp add: puppeteerSwitch_def puppeteerKinds_def)

lemma pythonPlaywrightSwitch_kinds:
  "(pythonPlaywrightSwitch a \<noteq> None) = (type a \<in> set pythonPlaywrightKinds)"
  by (simp add: pythonPlaywrightSwitch_def pythonPlaywrightKinds_def)

lemma pythonSeleniumSwitch_kinds:
  "(pythonSeleniumSwitch a \<noteq> None) = (type a \<in> set pythonSeleniumKinds)"
  by (simp add: pythonSeleniumSwitch_def pythonSeleniumKinds_def)

lemma selectedSwitch_hasTemplate:
  "(selectedSwitch fw lang a \<noteq> None) = hasTemplate fw lang a"
  unfolding selectedSwitch_def templateKinds_def hasTemplate_def
  using playwrightSwitch_kinds [of a] puppeteerSwitch_kinds [of a]
    pythonPlaywrightSwitch_kinds [of a] pythonSeleniumSwitch_kinds [of a]
  by simp

lemma length_statements:
  "length (statements fw lang actions) = length (filter (hasTemplate fw lang) actions)"
proof -
  have "(\<lambda>a. selectedSwitch fw lang a \<noteq> None) = hasTemplate fw lang"
    by (rule ext) (rule selectedSwitch_hasTemplate)
  then show ?thesis
    by (simp add: statements_def map_filter_def)
qed

lemma statements_concat_singletons:
  "statements fw lang actions = concat (map (\<lambda>a. statements fw lang [a]) actions)"
  by (induction actions) (simp_all add: statements_def map_filter_simps split: option.splits)

subsection \<open>Session control\<close>

text \<open>
  C4: a generate request made while the log is empty returns the message that no
  actions are recorded, in a response without the error flag, and changes nothing:
  in particular no call to the file system is made, so no file is written.
\<close>

theorem generate_empty_log:
  assumes "recordedActions s = []"
  shows "playwright_generate_test e fw lang fileName s =
           (\<lparr>content = [''No actions recorded. Start recording with playwright_record_start first.''],
             isError = None\<rparr>, s)"
  using assms by (simp add: playwright_generate_test_def)

theorem generate_empty_log_witness:
  "recordedActions initialSession = [] \<and>
   fst (playwright_generate_test testEnv Selenium Python ''t.py'' initialSession) =
     \<lparr>content = [''No actions recorded. Start recording with playwright_record_start first.''],
       isError = None\<rparr> \<and>
   fsCalls (snd (playwright_generate_test testEnv Selenium Python ''t.py'' initialSession)) = []"
proof -
  have h: "recordedActions initialSession = []" by (simp add: initialSession_def)
  show ?thesis
    using h generate_empty_log [OF h, of testEnv Selenium Python "''t.py''"]
    by (simp add: initialSession_def)
qed

text \<open>
  C5: from every session state, starting a recording sets the recording flag, stores
  the name and replaces the log by the empty log (for every name, the non-empty ones
  included). After a start, a recorded action and a second start, the log is empty and
  the whole state is the one the second start alone would have produced, so that
  nothing generated later can depend on the action recorded between the two starts.
\<close>

theorem record_start_resets:
  "isRecording (snd (playwright_record_start name s)) = True \<and>
   recordingName (snd (playwright_record_start name s)) = name \<and>
   recordedActions (snd (playwright_record_start name s)) = [] \<and>
   fsCalls (snd (playwright_record_start name s)) = fsCalls s \<and>
   recordedActions (snd (playwright_record_start name2
      (recordAction e action (snd (playwright_record_start name1 s))))) = [] \<and>
   snd (playwright_record_start name2 (recordAction e action (snd (playwright_record_start name1 s))))
     = snd (playwright_record_start name2 s)"
  by (simp add: playwright_record_start_def recordAction_def)

text \<open>
  C6: while the recording flag is off, \<^const>\<open>recordAction\<close> returns the session
  state it was given, for every candidate action; the function has no failing branch.
  While the flag is on, it appends the candidate to the end of the log, with the
  clock's value at the call as its time stamp, and changes nothing else.
\<close>

theorem record_action_effect:
  "(\<not> isRecording s \<longrightarrow> recordAction e action s = s) \<and>
   (isRecording s \<longrightarrow>
      recordedActions (recordAction e action s) = recordedActions s @ [stamp (now e) action] \<and>
      timestamp (last (recordedActions (recordAction e action s))) = now e \<and>
      ActionInput.truncate (last (recordedActions (recordAction e action s))) = action \<and>
      isRecording (recordAction e action s) = isRecording s \<and>
      recordingName (recordAction e action s) = recordingName s \<and>
      fsCalls (recordAction e action s) = fsCalls s)"
  by (simp add: recordAction_def stamp_def ActionInput.extend_def ActionInput.truncate_def)

theorem record_action_effect_witness:
  "\<not> isRecording initialSession \<and>
   recordAction testEnv (clickAction ''#go'') initialSession = initialSession \<and>
   isRecording (snd (playwright_record_start ''s1'' initialSession)) \<and>
   recordedActions (recordAction testEnv (clickAction ''#go'')
       (snd (playwright_record_start ''s1'' initialSession)))
     = [stamp 1700000000000 (clickAction ''#go'')]"
  using record_action_effect [where s = initialSession and e = testEnv
      and action = "clickAction ''#go''"]
    record_action_effect [where s = "snd (playwright_record_start ''s1'' initialSession)"
      and e = testEnv and action = "clickAction ''#go''"]
  by (simp add: initialSession_def playwright_record_start_def testEnv_def)

text \<open>
  C7: stopping clears the recording flag and leaves the log, the session name and the
  file system untouched, so the log can still be generated from. When the flag is
  already off the state does not change at all, and a second stop in a row gives the
  same response and state as the first.
\<close>

theorem record_stop_effect:
  "isRecording (snd (playwright_record_stop s)) = False \<and>
   recordedActions (snd (playwright_record_stop s)) = recordedActions s \<and>
   recordingName (snd (playwright_record_stop s)) = recordingName s \<and>
   fsCalls (snd (playwright_record_stop s)) = fsCalls s \<and>
   (\<not> isRecording s \<longrightarrow> snd (playwright_record_stop s) = s) \<and>
   playwright_record_stop (snd (playwright_record_stop s)) = playwright_record_stop s"
  by (simp add: playwright_record_stop_def Let_def)

theorem record_stop_effect_witness:
  "\<not> isRecording initialSession \<and> snd (playwright_record_stop initialSession) = initialSession"
  using record_stop_effect [of initialSession] by (simp add: initialSession_def)

subsection \<open>The Python path\<close>

lemma generatePythonTest_not_playwright:
  "generatePythonTest name actions Puppeteer = generatePythonTest name actions Selenium"
  by (simp only: generatePythonTest_def framework.distinct if_False)

lemma selectTestCode_python:
  "selectTestCode name actions fw Python = generatePythonTest name actions fw"
  by (simp add: selectTestCode_def)

text \<open>
  C10: with the language Python, a request for Puppeteer produces the same text as a
  request for Selenium, for every log and session name: \<^const>\<open>generatePythonTest\<close>
  takes its second branch for every framework other than Playwright. The calls made
  to the file system, and so the file written, are the same as well.
\<close>

theorem python_puppeteer_is_selenium:
  "selectTestCode name actions Puppeteer Python = selectTestCode name actions Selenium Python \<and>
   generatePythonTest name actions Puppeteer = generatePythonTest name actions Selenium \<and>
   snd (playwright_generate_test e Puppeteer Python fileName s)
     = snd (playwright_generate_test e Selenium Python fileName s)"
proof -
  have eq: "selectTestCode name actions Puppeteer Python = selectTestCode name actions Selenium Python"
    for name actions
    by (simp only: selectTestCode_python generatePythonTest_not_playwright)
  have "snd (playwright_generate_test e Puppeteer Python fileName s)
     = snd (playwright_generate_test e Selenium Python fileName s)"
    by (simp add: playwright_generate_test_def Let_def eq split: option.splits)
  with eq generatePythonTest_not_playwright show ?thesis by blast
qed

subsection \<open>The shape of the generated texts\<close>

lemma generatePlaywrightTest_text:
  "generatePlaywrightTest name actions lang =
     ((if lang = Typescript
       then ''import { test, expect } from '' @ squote ''@playwright/test'' @ '';\<newline>\<newline>''
       else ''const { test, expect } = require('' @ squote ''@playwright/test'' @ '');\<newline>\<newline>'')
      @ ''test('' @ squote (if name = [] then ''recorded test'' else name)
      @ '', async ({ page }) => {\<newline>'')
     @ concat (List.map_filter playwrightSwitch actions) @ ''});\<newline>''"
  by (simp add: generatePlaywrightTest_def Let_def appendStatements_concat orElse_def)

lemma generatePuppeteerTest_text:
  "generatePuppeteerTest actions lang =
     ((if lang = Typescript
       then ''import puppeteer from '' @ squote ''puppeteer'' @ '';\<newline>\<newline>''
       else ''const puppeteer = require('' @ squote ''puppeteer'' @ '');\<newline>\<newline>'')
      @ ''(async () => {\<newline>  const browser = await puppeteer.launch();\<newline>  const page = await browser.newPage();\<newline>\<newline>'')
     @ concat (List.map_filter puppeteerSwitch actions)
     @ ''\<newline>  await browser.close();\<newline>})();\<newline>''"
  by (simp add: generatePuppeteerTest_def Let_def appendStatements_concat)

lemma replaceNonAlnum_empty: "(replaceNonAlnum name = []) = (name = [])"
  by (simp add: replaceNonAlnum_def)

lemma generatePythonTest_playwright_text:
  "generatePythonTest name actions Playwright =
     (''from playwright.sync_api import sync_playwright\<newline>\<newline>''
      @ ''def test_'' @ (if name = [] then ''recorded'' else replaceNonAlnum name) @ ''():\<newline>''
      @ ''    with sync_playwright() as p:\<newline>        browser = p.chromium.launch()\<newline>        page = browser.new_page()\<newline>\<newline>'')
     @ concat (List.map_filter pythonPlaywrightSwitch actions)
     @ ''\<newline>        browser.close()\<newline>''"
  by (simp add: generatePythonTest_def Let_def appendStatements_concat orElse_def
      replaceNonAlnum_empty)

lemma generatePythonTest_selenium_text:
  "fw \<noteq> Playwright \<Longrightarrow> generatePythonTest name actions fw =
     (''from selenium import webdriver\<newline>from selenium.webdriver.common.by import By\<newline>from selenium.webdriver.support.ui import WebDriverWait\<newline>from selenium.webdriver.support import expected_conditions as EC\<newline>\<newline>''
      @ ''def test_'' @ (if name = [] then ''recorded'' else replaceNonAlnum name) @ ''():\<newline>''
      @ ''    driver = webdriver.Chrome()\<newline>\<newline>'')
     @ concat (List.map_filter pythonSeleniumSwitch actions)
     @ ''\<newline>    driver.quit()\<newline>''"
  by (simp add: generatePythonTest_def Let_def appendStatements_concat orElse_def
      replaceNonAlnum_empty)

lemma selectTestCode_decomposition:
  "\<exists>pre post. \<forall>actions.
     selectTestCode name actions fw lang = pre @ concat (statements fw lang actions) @ post"
proof (cases "lang = Python")
  case True
  show ?thesis
  proof (cases "fw = Playwright")
    case True
    with \<open>lang = Python\<close>
    have a: "selectTestCode name actions fw lang = generatePythonTest name actions Playwright"
      and b: "statements fw lang actions = List.map_filter pythonPlaywrightSwitch actions"
      for actions
      by (simp_all add: selectTestCode_def statements_def selectedSwitch_def)
    show ?thesis unfolding a b
      by (intro exI allI) (rule generatePythonTest_playwright_text)
  next
    case False
    with \<open>lang = Python\<close>
    have a: "selectTestCode name actions fw lang = generatePythonTest name actions fw"
      and b: "statements fw lang actions = List.map_filter pythonSeleniumSwitch actions"
      for actions
      by (simp_all add: selectTestCode_def statements_def selectedSwitch_def)
    show ?thesis unfolding a b
      by (intro exI allI) (rule generatePythonTest_selenium_text [OF False])
  qed
next
  case False
  show ?thesis
  proof (cases fw)
    case Playwright
    with \<open>lang \<noteq> Python\<close>
    have a: "selectTestCode name actions fw lang = generatePlaywrightTest name actions lang"
      and b: "statements fw lang actions = List.map_filter playwrightSwitch actions"
      for actions
      by (simp_all add: selectTestCode_def statements_def selectedSwitch_def)
    show ?thesis unfolding a b
      by (intro exI allI) (rule generatePlaywrightTest_text)
  next
    case Puppeteer
    with \<open>lang \<noteq> Python\<close>
    have a: "selectTestCode name actions fw lang = generatePuppeteerTest actions lang"
      and b: "statements fw lang actions = List.map_filter puppeteerSwitch actions"
      for actions
      by (simp_all add: selectTestCode_def statements_def selectedSwitch_def)
    show ?thesis unfolding a b
      by (intro exI allI) (rule generatePuppeteerTest_text)
  next
    case Selenium
    with \<open>lang \<noteq> Python\<close> have "\<forall>actions. selectTestCode name actions fw lang
        = [] @ concat (statements fw lang actions) @ []"
      by (simp add: selectTestCode_def statements_def selectedSwitch_def map_filter_def)
    then show ?thesis by blast
  qed
qed

lemma templates_depend_on_language:
  "hasTemplate Playwright Typescript (stamp t (checkAction sel)) \<and>
   \<not> hasTemplate Playwright Python (stamp t (checkAction sel)) \<and>
   hasTemplate Selenium Python (stamp t (navigateAction u)) \<and>
   \<not> hasTemplate Selenium Typescript (stamp t (navigateAction u))"
  by (simp add: hasTemplate_def templateKinds_def playwrightKinds_def pythonPlaywrightKinds_def
      pythonSeleniumKinds_def stamp_def checkAction_def navigateAction_def actionOf_def
      ActionInput.extend_def)

lemma playwrightSwitch_line:
  "playwrightSwitch a = Some stmt \<Longrightarrow> stmt \<noteq> [] \<and> last stmt = CHR ''\<newline>''"
  by (auto simp: playwrightSwitch_def split: if_splits)

lemma puppeteerSwitch_line:
  "puppeteerSwitch a = Some stmt \<Longrightarrow> stmt \<noteq> [] \<and> last stmt = CHR ''\<newline>''"
  by (auto simp: puppeteerSwitch_def split: if_splits)

lemma pythonPlaywrightSwitch_line:
  "pythonPlaywrightSwitch a = Some stmt \<Longrightarrow> stmt \<noteq> [] \<and> last stmt = CHR ''\<newline>''"
  by (auto simp: pythonPlaywrightSwitch_def split: if_splits)

lemma pythonSeleniumSwitch_line:
  "pythonSeleniumSwitch a = Some stmt \<Longrightarrow> stmt \<noteq> [] \<and> last stmt = CHR ''\<newline>''"
  by (auto simp: pythonSeleniumSwitch_def split: if_splits)

lemma selectedSwitch_line:
  assumes "selectedSwitch fw lang a = Some stmt"
  shows "stmt \<noteq> [] \<and> last stmt = CHR ''\<newline>''"
proof -
  have "selectedSwitch fw lang = pythonPlaywrightSwitch
      \<or> selectedSwitch fw lang = pythonSeleniumSwitch
      \<or> selectedSwitch fw lang = playwrightSwitch
      \<or> selectedSwitch fw lang = puppeteerSwitch
      \<or> selectedSwitch fw lang = (\<lambda>action. None)"
    by (simp add: selectedSwitch_def)
  then show ?thesis
  proof (elim disjE)
    assume "selectedSwitch fw lang = pythonPlaywrightSwitch"
    with assms show ?thesis by (metis pythonPlaywrightSwitch_line)
  next
    assume "selectedSwitch fw lang = pythonSeleniumSwitch"
    with assms show ?thesis by (metis pythonSeleniumSwitch_line)
  next
    assume "selectedSwitch fw lang = playwrightSwitch"
    with assms show ?thesis by (metis playwrightSwitch_line)
  next
    assume "selectedSwitch fw lang = puppeteerSwitch"
    with assms show ?thesis by (metis puppeteerSwitch_line)
  next
    assume "selectedSwitch fw lang = (\<lambda>action. None)"
    with assms show ?thesis by simp
  qed
qed

lemma statements_lines:
  assumes "stmt \<in> set (statements fw lang actions)"
  shows "stmt \<noteq> [] \<and> last stmt = CHR ''\<newline>''"
proof -
  from assms obtain a where "selectedSwitch fw lang a = Some stmt"
    by (auto simp: statements_def map_filter_def)
  then show ?thesis by (rule selectedSwitch_line)
qed

lemma statements_of_templates:
  "statements fw lang actions
     = map (\<lambda>a. the (selectedSwitch fw lang a)) (filter (hasTemplate fw lang) actions)"
proof -
  have "(\<lambda>a. selectedSwitch fw lang a \<noteq> None) = hasTemplate fw lang"
    by (rule ext) (rule selectedSwitch_hasTemplate)
  then show ?thesis
    by (simp add: statements_def map_filter_def comp_def)
qed

lemma selectTestCode_length:
  "length (selectTestCode name actions fw lang)
     = length (selectTestCode name [] fw lang)
       + sum_list (map length (statements fw lang actions))"
proof -
  obtain pre post where
    d: "\<forall>as. selectTestCode name as fw lang = pre @ concat (statements fw lang as) @ post"
    using selectTestCode_decomposition by blast
  have e: "statements fw lang [] = []" by (simp add: statements_def map_filter_simps)
  have "selectTestCode name [] fw lang = pre @ post"
    using d [rule_format, of "[]"] by (simp add: e)
  moreover have "selectTestCode name actions fw lang
      = pre @ concat (statements fw lang actions) @ post"
    using d by blast
  ultimately show ?thesis by (simp add: length_concat)
qed

text \<open>
  C1, as the code has it. The \<^verbatim>\<open>case\<close> labels that decide whether an action is
  rendered are those of the \<^verbatim>\<open>switch\<close> selected by the framework and the language
  together (\<^const>\<open>templateKinds\<close>), not by the framework alone. For every log and
  every framework and language other than Selenium with TypeScript or JavaScript:
  the loop emits one statement for each action whose type is a label of the selected
  \<^verbatim>\<open>switch\<close>, in the order of the log, and none for the other actions, without any
  error; their number is never more than the length of the log, it is the length of
  the log when every type is a label, and it is less when some type is not. Every
  emitted statement is a non-empty text that ends with a line break, and the generated
  text is the text of the empty log with exactly these statements inserted as one
  block, so its length is that of the text of the empty log plus the lengths of the
  statements.
\<close>

theorem generate_statement_count:
  assumes "lang = Python \<or> fw \<noteq> Selenium"
  shows
  "length (statements fw lang actions) = length (filter (hasTemplate fw lang) actions) \<and>
   length (statements fw lang actions) \<le> length actions \<and>
   ((\<forall>a \<in> set actions. hasTemplate fw lang a) \<longrightarrow>
      length (statements fw lang actions) = length actions) \<and>
   ((\<exists>a \<in> set actions. \<not> hasTemplate fw lang a) \<longrightarrow>
      length (statements fw lang actions) < length actions) \<and>
   (\<forall>stmt \<in> set (statements fw lang actions). stmt \<noteq> [] \<and> last stmt = CHR ''\<newline>'') \<and>
   statements fw lang actions
     = map (\<lambda>a. the (selectedSwitch fw lang a)) (filter (hasTemplate fw lang) actions) \<and>
   (\<exists>pre post. selectTestCode name actions fw lang = pre @ concat (statements fw lang actions) @ post
      \<and> selectTestCode name [] fw lang = pre @ post) \<and>
   length (selectTestCode name actions fw lang)
     = length (selectTestCode name [] fw lang)
       + sum_list (map length (statements fw lang actions))"
proof -
  have hall: "(\<forall>a \<in> set actions. hasTemplate fw lang a) \<longrightarrow>
      length (statements fw lang actions) = length actions"
    by (simp add: length_statements)
  have hsome: "(\<exists>a \<in> set actions. \<not> hasTemplate fw lang a) \<longrightarrow>
      length (statements fw lang actions) < length actions"
    by (auto simp: length_statements intro: length_filter_less)
  have hline: "\<forall>stmt \<in> set (statements fw lang actions).
      stmt \<noteq> [] \<and> last stmt = CHR ''\<newline>''"
    using statements_lines by blast
  obtain pre post where
    d: "\<forall>as. selectTestCode name as fw lang = pre @ concat (statements fw lang as) @ post"
    using selectTestCode_decomposition by blast
  have "statements fw lang [] = []" by (simp add: statements_def map_filter_simps)
  with d have "selectTestCode name [] fw lang = pre @ post"
    by (metis append_Nil concat.simps(1))
  with d have htext: "\<exists>pre post. selectTestCode name actions fw lang
       = pre @ concat (statements fw lang actions) @ post
      \<and> selectTestCode name [] fw lang = pre @ post"
    by blast
  have hle: "length (statements fw lang actions) \<le> length actions"
    by (simp add: length_statements)
  from length_statements [of fw lang actions] hle hall hsome hline
    statements_of_templates [of fw lang actions] htext
    selectTestCode_length [of name actions fw lang]
  show ?thesis by blast
qed

theorem generate_statement_count_witness:
  "list_all (hasTemplate Puppeteer Typescript) plainLog \<and>
   length (statements Puppeteer Typescript plainLog) = 2 \<and>
   \<not> hasTemplate Puppeteer Typescript (checkboxLog ! 1) \<and>
   length (statements Puppeteer Typescript checkboxLog) < 3"
proof -
  have h0: "Typescript = Python \<or> Puppeteer \<noteq> Selenium" by simp
  have h1: "list_all (hasTemplate Puppeteer Typescript) plainLog"
    by (simp add: plainLog_def hasTemplate_def templateKinds_def puppeteerKinds_def stamp_def
        navigateAction_def clickAction_def actionOf_def ActionInput.extend_def)
  have h2: "\<not> hasTemplate Puppeteer Typescript (checkboxLog ! 1)"
    by (simp add: checkboxLog_def hasTemplate_def templateKinds_def puppeteerKinds_def stamp_def
        navigateAction_def clickAction_def checkAction_def actionOf_def ActionInput.extend_def)
  have l1: "length plainLog = 2" and l2: "length checkboxLog = 3"
    by (simp_all add: plainLog_def checkboxLog_def)
  from h1 have a1: "\<forall>a \<in> set plainLog. hasTemplate Puppeteer Typescript a"
    by (simp add: list_all_iff)
  from h2 l2 have a2: "\<exists>a \<in> set checkboxLog. \<not> hasTemplate Puppeteer Typescript a"
    by (metis nth_mem one_less_numeral_iff semiring_norm(77))
  have c1: "length (statements Puppeteer Typescript plainLog) = 2"
    using a1 l1 generate_statement_count [OF h0, where actions = plainLog and name = "''s1''"]
    by simp
  have c2: "length (statements Puppeteer Typescript checkboxLog) < 3"
    using a2 l2 generate_statement_count [OF h0, where actions = checkboxLog and name = "''s1''"]
    by simp
  from h1 h2 c1 c2 show ?thesis by simp
qed

text \<open>
  C1 as the specification states it, with the templates of a kind of action fixed by
  the framework, fails: for one framework and one log the number of statements changes
  with the language. A key press gives one Puppeteer statement for TypeScript and none
  for Python, where the text is that of the empty log; a checkbox action gives one
  Playwright statement for TypeScript and none for Python; and a navigation and a
  click give two Selenium statements for Python and the empty text for TypeScript.
\<close>

theorem generate_statement_count_counterexample:
  "statements Puppeteer Typescript pressLog
     = [''  await page.keyboard.press('' @ squote ''Enter'' @ '');\<newline>''] \<and>
   statements Puppeteer Python pressLog = [] \<and>
   selectTestCode ''s1'' pressLog Puppeteer Python = selectTestCode ''s1'' [] Puppeteer Python \<and>
   statements Playwright Typescript checkLog
     = [''  await page.check('' @ squote ''#agree'' @ '');\<newline>''] \<and>
   statements Playwright Python checkLog = [] \<and>
   selectTestCode ''s1'' checkLog Playwright Python = selectTestCode ''s1'' [] Playwright Python \<and>
   length (statements Selenium Python plainLog) = 2 \<and>
   selectTestCode ''s1'' plainLog Selenium Typescript = []"
  by code_simp

subsection \<open>Captured values in the statements\<close>











subsection \<open>Order of generation\<close>

lemma statements_single_le: "length (statements fw lang [a]) \<le> 1"
  by (simp add: statements_def map_filter_simps split: option.splits)

text \<open>
  C2: for every log, framework and language, the emitted statements are the
  concatenation, in the order of the log, of what each action emits by itself (one
  statement or none), so no statement is moved and none is merged with an equal one;
  and the generated text holds them in that order between a fixed text before and a
  fixed text after. In particular, after a start, a recorded navigation to a URL, a
  recorded click on a selector and a stop, the log is these two actions in this order
  and the Playwright text for TypeScript is the import, the test header, the
  \<^verbatim>\<open>goto\<close> statement with the URL, then the \<^verbatim>\<open>click\<close> statement with the
  selector, then the closing line.
\<close>

theorem generation_order:
  "statements fw lang actions = concat (map (\<lambda>a. statements fw lang [a]) actions) \<and>
   length (statements fw lang [a]) \<le> 1 \<and>
   (\<exists>pre post. \<forall>log.
      selectTestCode name log fw lang = pre @ concat (statements fw lang log) @ post) \<and>
   (let s = snd (playwright_record_stop
              (recordAction e2 (clickAction sel)
                (recordAction e1 (navigateAction u)
                  (snd (playwright_record_start sessionName s0)))))
    in recordedActions s = [stamp (now e1) (navigateAction u), stamp (now e2) (clickAction sel)] \<and>
       recordingName s = sessionName \<and>
       selectTestCode (recordingName s) (recordedActions s) Playwright Typescript
         = ''import { test, expect } from '' @ squote ''@playwright/test'' @ '';\<newline>\<newline>''
           @ ''test('' @ squote (if sessionName = [] then ''recorded test'' else sessionName)
           @ '', async ({ page }) => {\<newline>''
           @ ''  await page.goto('' @ squote u @ '');\<newline>''
           @ ''  await page.click('' @ squote sel @ '');\<newline>''
           @ ''});\<newline>'')"
proof -
  define s where "s = snd (playwright_record_stop
              (recordAction e2 (clickAction sel)
                (recordAction e1 (navigateAction u)
                  (snd (playwright_record_start sessionName s0)))))"
  have log: "recordedActions s = [stamp (now e1) (navigateAction u), stamp (now e2) (clickAction sel)]"
    and nm: "recordingName s = sessionName"
    by (simp_all add: s_def playwright_record_stop_def playwright_record_start_def
        recordAction_def Let_def)
  have code: "selectTestCode (recordingName s) (recordedActions s) Playwright Typescript
         = ''import { test, expect } from '' @ squote ''@playwright/test'' @ '';\<newline>\<newline>''
           @ ''test('' @ squote (if sessionName = [] then ''recorded test'' else sessionName)
           @ '', async ({ page }) => {\<newline>''
           @ ''  await page.goto('' @ squote u @ '');\<newline>''
           @ ''  await page.click('' @ squote sel @ '');\<newline>''
           @ ''});\<newline>''"
    unfolding log nm
    by (simp add: selectTestCode_def generatePlaywrightTest_text map_filter_simps
        playwrightSwitch_def stamp_def navigateAction_def clickAction_def actionOf_def
        ActionInput.extend_def interp_def)
  show ?thesis
    unfolding s_def [symmetric] Let_def
    using statements_concat_singletons [of fw lang actions] statements_single_le [of fw lang a]
      selectTestCode_decomposition [of name fw lang] log nm code
    by blast
qed

subsection \<open>Selenium with TypeScript or JavaScript\<close>

text \<open>
  C9: with a non-empty log, the framework Selenium and the language TypeScript or
  JavaScript, the generated code is the empty string. When the calls to the file
  system do not throw, the handler creates the directory if it is missing, writes the
  empty string to the output file and returns the success text with the number of
  recorded actions and nothing after it, without the error flag.
\<close>

theorem selenium_script_languages_empty:
  assumes "recordedActions s \<noteq> []"
    and "lang = Typescript \<or> lang = Javascript"
    and "existsSync e (pathJoin e (cwd e) ''generated-tests'')
         \<or> fsThrows e (MkdirSync (pathJoin e (cwd e) ''generated-tests'')) = None"
    and "fsThrows e (WriteFileSync
           (pathJoin e (pathJoin e (cwd e) ''generated-tests'') fileName) []) = None"
  shows "selectTestCode (recordingName s) (recordedActions s) Selenium lang = [] \<and>
         fst (playwright_generate_test e Selenium lang fileName s)
           = \<lparr>content = [''Test generated successfully!\<newline>File: ''
                 @ pathJoin e (pathJoin e (cwd e) ''generated-tests'') fileName
                 @ ''\<newline>Framework: selenium\<newline>Language: '' @ languageName lang
                 @ ''\<newline>Actions: '' @ stringOfNat (length (recordedActions s))
                 @ ''\<newline>\<newline>''],
               isError = None\<rparr> \<and>
         snd (playwright_generate_test e Selenium lang fileName s)
           = s\<lparr>fsCalls := fsCalls s
                 @ (if existsSync e (pathJoin e (cwd e) ''generated-tests'') then []
                    else [MkdirSync (pathJoin e (cwd e) ''generated-tests'')])
                 @ [WriteFileSync
                      (pathJoin e (pathJoin e (cwd e) ''generated-tests'') fileName) []]\<rparr>"
proof -
  have code: "selectTestCode (recordingName s) (recordedActions s) Selenium lang = []"
    using assms(2) by (auto simp: selectTestCode_def)
  show ?thesis
    using assms(1,3,4)
    by (auto simp: code playwright_generate_test_def Let_def)
qed

theorem selenium_script_languages_empty_witness:
  "recordedActions recordedSession \<noteq> [] \<and>
   playwright_generate_test testEnv Selenium Typescript ''out.spec.ts'' recordedSession
     = (\<lparr>content = [''Test generated successfully!\<newline>File: /srv/app/generated-tests/out.spec.ts\<newline>Framework: selenium\<newline>Language: typescript\<newline>Actions: 2\<newline>\<newline>''],
         isError = None\<rparr>,
        recordedSession\<lparr>fsCalls := [MkdirSync ''/srv/app/generated-tests'',
           WriteFileSync ''/srv/app/generated-tests/out.spec.ts'' []]\<rparr>)"
proof -
  have h1: "recordedActions recordedSession \<noteq> []"
    by (simp add: recordedSession_def plainLog_def)
  have h2: "Typescript = Typescript \<or> Typescript = Javascript" by simp
  have h3: "existsSync testEnv (pathJoin testEnv (cwd testEnv) ''generated-tests'')
         \<or> fsThrows testEnv (MkdirSync (pathJoin testEnv (cwd testEnv) ''generated-tests'')) = None"
    by (simp add: testEnv_def)
  have h4: "fsThrows testEnv (WriteFileSync
           (pathJoin testEnv (pathJoin testEnv (cwd testEnv) ''generated-tests'') ''out.spec.ts'') [])
         = None"
    by (simp add: testEnv_def)
  have n: "stringOfNat (length (recordedActions recordedSession)) = ''2''"
    by (simp add: recordedSession_def plainLog_def stringOfNat.simps digitChar_def)
  have f: "fsCalls recordedSession = []"
    by (simp add: recordedSession_def)
  show ?thesis
    using h1 selenium_script_languages_empty [OF h1 h2 h3 h4]
    unfolding n
    by (simp add: prod_eq_iff testEnv_def f)
qed

subsection \<open>The nine combinations\<close>

lemma replaceNonAlnum_safe:
  "length (replaceNonAlnum name) = length name \<and>
   list_all (\<lambda>c. isAlnum c \<or> c = CHR ''_'') (replaceNonAlnum name)"
  by (induction name) (simp_all add: replaceNonAlnum_def)

text \<open>
  C3, as the code has it. For every log and session name, seven of the nine
  combinations give a text made of a preamble, the statements of the log and a
  closing part:
  \<^item> Playwright with TypeScript or JavaScript: the import of the test runner, one
    \<^verbatim>\<open>test\<close> call whose title is the session name as it is (or
    \<^verbatim>\<open>recorded test\<close> when the name is empty), the statements, and the line that
    closes the call; there is no statement that closes a browser.
  \<^item> Puppeteer with TypeScript or JavaScript: the import, an anonymous asynchronous
    function that launches a browser and opens a page, the statements, and the close of
    the browser; the session name does not occur.
  \<^item> Playwright with Python: the import, a function \<^verbatim>\<open>test_\<close> followed by the
    session name with every character outside \<^verbatim>\<open>[a-zA-Z0-9]\<close> replaced by an
    underscore (or by \<^verbatim>\<open>recorded\<close> when the name is empty), the launch of a browser,
    the statements, and the close of the browser.
  \<^item> Selenium with Python, and Puppeteer with Python, which gives the same text: the
    Selenium imports, the function named in the same way, the creation of the driver,
    the statements, and the quit of the driver.
  Nothing is said here about Selenium with TypeScript or JavaScript.
\<close>

theorem generated_text_shape:
  "selectTestCode name actions Playwright Typescript
     = ''import { test, expect } from '' @ squote ''@playwright/test'' @ '';\<newline>\<newline>''
       @ ''test('' @ squote (if name = [] then ''recorded test'' else name)
       @ '', async ({ page }) => {\<newline>''
       @ concat (statements Playwright Typescript actions)
       @ ''});\<newline>'' \<and>
   selectTestCode name actions Playwright Javascript
     = ''const { test, expect } = require('' @ squote ''@playwright/test'' @ '');\<newline>\<newline>''
       @ ''test('' @ squote (if name = [] then ''recorded test'' else name)
       @ '', async ({ page }) => {\<newline>''
       @ concat (statements Playwright Javascript actions)
       @ ''});\<newline>'' \<and>
   selectTestCode name actions Puppeteer Typescript
     = ''import puppeteer from '' @ squote ''puppeteer'' @ '';\<newline>\<newline>''
       @ ''(async () => {\<newline>''
       @ ''  const browser = await puppeteer.launch();\<newline>''
       @ ''  const page = await browser.newPage();\<newline>\<newline>''
       @ concat (statements Puppeteer Typescript actions)
       @ ''\<newline>  await browser.close();\<newline>''
       @ ''})();\<newline>'' \<and>
   selectTestCode name actions Puppeteer Javascript
     = ''const puppeteer = require('' @ squote ''puppeteer'' @ '');\<newline>\<newline>''
       @ ''(async () => {\<newline>''
       @ ''  const browser = await puppeteer.launch();\<newline>''
       @ ''  const page = await browser.newPage();\<newline>\<newline>''
       @ concat (statements Puppeteer Javascript actions)
       @ ''\<newline>  await browser.close();\<newline>''
       @ ''})();\<newline>'' \<and>
   selectTestCode name actions Playwright Python
     = ''from playwright.sync_api import sync_playwright\<newline>\<newline>''
       @ ''def test_'' @ (if name = [] then ''recorded'' else replaceNonAlnum name)
       @ ''():\<newline>''
       @ ''    with sync_playwright() as p:\<newline>''
       @ ''        browser = p.chromium.launch()\<newline>''
       @ ''        page = browser.new_page()\<newline>\<newline>''
       @ concat (statements Playwright Python actions)
       @ ''\<newline>        browser.close()\<newline>'' \<and>
   selectTestCode name actions Selenium Python
     = ''from selenium import webdriver\<newline>''
       @ ''from selenium.webdriver.common.by import By\<newline>''
       @ ''from selenium.webdriver.support.ui import WebDriverWait\<newline>''
       @ ''from selenium.webdriver.support import expected_conditions as EC\<newline>\<newline>''
       @ ''def test_'' @ (if name = [] then ''recorded'' else replaceNonAlnum name)
       @ ''():\<newline>''
       @ ''    driver = webdriver.Chrome()\<newline>\<newline>''
       @ concat (statements Selenium Python actions)
       @ ''\<newline>    driver.quit()\<newline>'' \<and>
   selectTestCode name actions Puppeteer Python = selectTestCode name actions Selenium Python \<and>
   statements Puppeteer Python actions = statements Selenium Python actions \<and>
   length (replaceNonAlnum name) = length name \<and>
   list_all (\<lambda>c. isAlnum c \<or> c = CHR ''_'') (replaceNonAlnum name)"
proof -
  have pw_ts: "selectTestCode name actions Playwright Typescript
     = ''import { test, expect } from '' @ squote ''@playwright/test'' @ '';\<newline>\<newline>''
       @ ''test('' @ squote (if name = [] then ''recorded test'' else name)
       @ '', async ({ page }) => {\<newline>''
       @ concat (statements Playwright Typescript actions)
       @ ''});\<newline>''"
    by (simp add: selectTestCode_def statements_def selectedSwitch_def
        generatePlaywrightTest_text)
  have pw_js: "selectTestCode name actions Playwright Javascript
     = ''const { test, expect } = require('' @ squote ''@playwright/test'' @ '');\<newline>\<newline>''
       @ ''test('' @ squote (if name = [] then ''recorded test'' else name)
       @ '', async ({ page }) => {\<newline>''
       @ concat (statements Playwright Javascript actions)
       @ ''});\<newline>''"
    by (simp add: selectTestCode_def statements_def selectedSwitch_def
        generatePlaywrightTest_text)
  have pp_ts: "selectTestCode name actions Puppeteer Typescript
     = ''import puppeteer from '' @ squote ''puppeteer'' @ '';\<newline>\<newline>''
       @ ''(async () => {\<newline>''
       @ ''  const browser = await puppeteer.launch();\<newline>''
       @ ''  const page = await browser.newPage();\<newline>\<newline>''
       @ concat (statements Puppeteer Typescript actions)
       @ ''\<newline>  await browser.close();\<newline>''
       @ ''})();\<newline>''"
    by (simp add: selectTestCode_def statements_def selectedSwitch_def
        generatePuppeteerTest_text)
  have pp_js: "selectTestCode name actions Puppeteer Javascript
     = ''const puppeteer = require('' @ squote ''puppeteer'' @ '');\<newline>\<newline>''
       @ ''(async () => {\<newline>''
       @ ''  const browser = await puppeteer.launch();\<newline>''
       @ ''  const page = await browser.newPage();\<newline>\<newline>''
       @ concat (statements Puppeteer Javascript actions)
       @ ''\<newline>  await browser.close();\<newline>''
       @ ''})();\<newline>''"
    by (simp add: selectTestCode_def statements_def selectedSwitch_def
        generatePuppeteerTest_text)
  have py_pw: "selectTestCode name actions Playwright Python
     = ''from playwright.sync_api import sync_playwright\<newline>\<newline>''
       @ ''def test_'' @ (if name = [] then ''recorded'' else replaceNonAlnum name)
       @ ''():\<newline>''
       @ ''    with sync_playwright() as p:\<newline>''
       @ ''        browser = p.chromium.launch()\<newline>''
       @ ''        page = browser.new_page()\<newline>\<newline>''
       @ concat (statements Playwright Python actions)
       @ ''\<newline>        browser.close()\<newline>''"
    by (simp add: selectTestCode_def statements_def selectedSwitch_def
        generatePythonTest_playwright_text)
  have py_se: "selectTestCode name actions Selenium Python
     = ''from selenium import webdriver\<newline>''
       @ ''from selenium.webdriver.common.by import By\<newline>''
       @ ''from selenium.webdriver.support.ui import WebDriverWait\<newline>''
       @ ''from selenium.webdriver.support import expected_conditions as EC\<newline>\<newline>''
       @ ''def test_'' @ (if name = [] then ''recorded'' else replaceNonAlnum name)
       @ ''():\<newline>''
       @ ''    driver = webdriver.Chrome()\<newline>\<newline>''
       @ concat (statements Selenium Python actions)
       @ ''\<newline>    driver.quit()\<newline>''"
    by (simp add: selectTestCode_def statements_def selectedSwitch_def
        generatePythonTest_selenium_text)
  have py_pp: "selectTestCode name actions Puppeteer Python
      = selectTestCode name actions Selenium Python"
    by (simp only: selectTestCode_python generatePythonTest_not_playwright)
  have st_pp: "statements Puppeteer Python actions = statements Selenium Python actions"
    by (simp add: statements_def selectedSwitch_def)
  from pw_ts pw_js pp_ts pp_js py_pw py_se py_pp st_pp replaceNonAlnum_safe [of name]
  show ?thesis by blast
qed

text \<open>
  C3 as the specification states it fails: for a log of two actions recorded under the
  name \<^verbatim>\<open>login\<close>, the text for Selenium with TypeScript is empty, the text for
  Puppeteer with TypeScript does not contain the session name, and the text for
  Playwright with TypeScript does not contain \<^verbatim>\<open>close\<close>.
\<close>

theorem generated_text_shape_counterexample:
  "selectTestCode ''login'' plainLog Selenium Typescript = [] \<and>
   \<not> sublist ''login'' (selectTestCode ''login'' plainLog Puppeteer Typescript) \<and>
   \<not> sublist ''close'' (selectTestCode ''login'' plainLog Playwright Typescript)"
  by code_simp

end
